theory Spec2Isabelle
  imports Main "HOL-Library.Word"
begin

section \<open>JavaScript values of the contact worker\<close>

text \<open>
  The worker of \<^verbatim>\<open>src/index.ts\<close> (the version with the Turnstile check) is one
  handler, \<^verbatim>\<open>fetch(request, env, ctx)\<close>. A JavaScript string is a sequence of UTF-16
  code units; \<^verbatim>\<open>.length\<close> counts them and a regular expression without the \<^verbatim>\<open>u\<close>
  flag matches them one by one.
\<close>

type_synonym jsstring = "16 word list"

definition js :: "string \<Rightarrow> jsstring" where
  \<comment> \<open>an ASCII literal of the source as a JavaScript string\<close>
  "js s = map (\<lambda>c. of_nat (of_char c)) s"

text \<open>
  A parsed JSON number is an IEEE double: \<open>m * 2 ^ e\<close>, or an infinity (a literal too
  large for a double parses to one). JSON parsing never gives NaN.
\<close>

datatype jsnum = Finite int int | Infinity bool

datatype json =
    JNull
  | JBool bool
  | JNum jsnum
  | JStr jsstring
  | JArr "json list"
  | JObj "(jsstring \<times> json) list"

text \<open>The value of a property read: \<open>None\<close> is \<^verbatim>\<open>undefined\<close>.\<close>

type_synonym jsval = "json option"

datatype exn = TypeError | SyntaxError | NetworkError | MailError

text \<open>The properties the handler reads, and their keys.\<close>

datatype key = Name | Email | Message | Token | Success

fun field_key :: "key \<Rightarrow> jsstring" where
  "field_key Name = js ''name''"
| "field_key Email = js ''email''"
| "field_key Message = js ''message''"
| "field_key Token = js ''token''"
| "field_key Success = js ''success''"

text \<open>
  \<^verbatim>\<open>data.name\<close> and its siblings. Reading a property of \<^verbatim>\<open>null\<close> throws a TypeError.
  An object that JSON parsing built holds its members as own properties (the list has
  one entry per key). Arrays, strings, numbers and booleans have none of the five keys,
  neither as own properties nor on their prototypes, so the read gives \<^verbatim>\<open>undefined\<close>.
\<close>

fun get_field :: "json \<Rightarrow> key \<Rightarrow> exn + jsval" where
  "get_field JNull f = Inl TypeError"
| "get_field (JObj kvs) f = Inr (map_of kvs (field_key f))"
| "get_field v f = Inr None"

text \<open>
  Truthiness, as \<^verbatim>\<open>!x\<close> tests it: \<^verbatim>\<open>undefined\<close>, \<^verbatim>\<open>null\<close>, \<^verbatim>\<open>false\<close>, zero
  and the empty string are falsy; every array and object is truthy.
\<close>

fun truthy :: "jsval \<Rightarrow> bool" where
  "truthy None = False"
| "truthy (Some JNull) = False"
| "truthy (Some (JBool b)) = b"
| "truthy (Some (JNum (Finite m e))) = (m \<noteq> 0)"
| "truthy (Some (JNum (Infinity neg))) = True"
| "truthy (Some (JStr s)) = (s \<noteq> [])"
| "truthy (Some (JArr xs)) = True"
| "truthy (Some (JObj kvs)) = True"

section \<open>The regular expression of the email check\<close>

text \<open>
  \<^verbatim>\<open>\s\<close> of a JavaScript regular expression: the WhiteSpace and LineTerminator code
  points of ECMAScript (tab, LF, VT, FF, CR, space, no-break space, U+1680,
  U+2000 to U+200A, U+2028, U+2029, U+202F, U+205F, U+3000, U+FEFF).
\<close>

definition is_space :: "16 word \<Rightarrow> bool" where
  "is_space c \<longleftrightarrow>
     c = 0x09 \<or> c = 0x0A \<or> c = 0x0B \<or> c = 0x0C \<or> c = 0x0D \<or> c = 0x20 \<or> c = 0xA0 \<or>
     c = 0x1680 \<or> (0x2000 \<le> c \<and> c \<le> 0x200A) \<or> c = 0x2028 \<or> c = 0x2029 \<or>
     c = 0x202F \<or> c = 0x205F \<or> c = 0x3000 \<or> c = 0xFEFF"

text \<open>A member of a character class: a literal code unit or the escape \<^verbatim>\<open>\s\<close>.\<close>

datatype class_item = CChar "16 word" | CSpace

fun in_item :: "class_item \<Rightarrow> 16 word \<Rightarrow> bool" where
  "in_item (CChar d) c = (c = d)"
| "in_item CSpace c = is_space c"

text \<open>
  The syntax the pattern uses: a literal, a negated class \<^verbatim>\<open>[^...]\<close>, concatenation and
  the greedy \<^verbatim>\<open>+\<close>.
\<close>

datatype rx = Lit "16 word" | NotIn "class_item list" | Cat rx rx | Plus rx

text \<open>
  A backtracking matcher: \<open>rmatch r s\<close> lists what is left of \<open>s\<close> after each way of
  matching \<open>r\<close> at its start, in the order a backtracking engine tries them (the
  greedy \<^verbatim>\<open>+\<close> tries one more iteration first). An iteration that consumes nothing
  is not repeated, as in ECMAScript.
\<close>

function rmatch :: "rx \<Rightarrow> jsstring \<Rightarrow> jsstring list" where
  "rmatch (Lit d) s = (case s of [] \<Rightarrow> [] | c # cs \<Rightarrow> if c = d then [cs] else [])"
| "rmatch (NotIn items) s =
     (case s of [] \<Rightarrow> [] | c # cs \<Rightarrow> if \<not> list_ex (\<lambda>i. in_item i c) items then [cs] else [])"
| "rmatch (Cat a b) s = concat (map (rmatch b) (rmatch a s))"
| "rmatch (Plus a) s =
     concat (map (\<lambda>r. (if length r < length s then rmatch (Plus a) r else []) @ [r]) (rmatch a s))"
  by pat_completeness auto
termination
  by (relation "measures [\<lambda>(r, s). size r, \<lambda>(r, s). length s]") auto

declare rmatch.simps [simp del]

text \<open>
  \<^verbatim>\<open>/^r$/.test(s)\<close> with no flags: \<^verbatim>\<open>^\<close> holds only at the start of the input and
  \<^verbatim>\<open>$\<close> only at its end, so the test succeeds when some way of matching \<open>r\<close> from
  the start consumes all of \<open>s\<close>.
\<close>

definition regex_test :: "rx \<Rightarrow> jsstring \<Rightarrow> bool" where
  "regex_test r s \<longleftrightarrow> [] \<in> set (rmatch r s)"

text \<open>\<^verbatim>\<open>[^\s@]\<close> and \<^verbatim>\<open>const emailRegex = /^[^\s@]+@[^\s@]+\.[^\s@]+$/\<close>.\<close>

definition not_space_at :: rx where
  "not_space_at = NotIn [CSpace, CChar 0x40]"

definition emailRegex :: rx where
  "emailRegex =
     Cat (Plus not_space_at) (Cat (Lit 0x40) (Cat (Plus not_space_at)
       (Cat (Lit 0x2E) (Plus not_space_at))))"

text \<open>
  The pattern as the specification words it, to compare with the matcher: one or more
  code units that are neither whitespace nor \<^verbatim>\<open>@\<close>, then \<^verbatim>\<open>@\<close>, then one or more such
  code units, then a dot, then one or more such code units.
\<close>

definition plain :: "16 word \<Rightarrow> bool" where
  "plain c \<longleftrightarrow> \<not> is_space c \<and> c \<noteq> 0x40"

definition email_shape :: "jsstring \<Rightarrow> bool" where
  "email_shape s \<longleftrightarrow>
     (\<exists>l d t. s = l @ [0x40] @ d @ [0x2E] @ t \<and> l \<noteq> [] \<and> d \<noteq> [] \<and> t \<noteq> [] \<and>
        (\<forall>c \<in> set l. plain c) \<and> (\<forall>c \<in> set d. plain c) \<and> (\<forall>c \<in> set t. plain c))"

section \<open>Requests, responses and the outside world\<close>

text \<open>
  What the handler uses of the request: \<^verbatim>\<open>request.method\<close>, and what \<^verbatim>\<open>await request.json()\<close>
  gives, a parsed value or an exception (a body that is not JSON).
\<close>

record request =
  request_method :: jsstring
  json_body :: "exn + json"

text \<open>\<^verbatim>\<open>interface Env\<close>: the two bindings of the worker.\<close>

record env =
  TURNSTILE_SECRET :: jsstring
  pass :: jsstring

text \<open>
  The body of a response: none (\<^verbatim>\<open>null\<close>), a text, or \<^verbatim>\<open>JSON.stringify\<close> of a
  value, kept as the value. The headers are the ones the source passes to
  \<^verbatim>\<open>new Response\<close>.
\<close>

datatype body = NoBody | Text jsstring | Stringify json

record response =
  status :: nat
  headers :: "(jsstring \<times> jsstring) list"
  body :: body

text \<open>\<^verbatim>\<open>new Response(body, {status, headers})\<close>; the status is 200 when none is given.\<close>

definition Response :: "body \<Rightarrow> nat option \<Rightarrow> (jsstring \<times> jsstring) list \<Rightarrow> response" where
  "Response b st hs =
     \<lparr>status = (case st of None \<Rightarrow> 200 | Some n \<Rightarrow> n), headers = hs, body = b\<rparr>"

definition jsonResponse :: "json \<Rightarrow> nat \<Rightarrow> response" where
  "jsonResponse b st =
     Response (Stringify b) (Some st) [(js ''Content-Type'', js ''application/json'')]"

text \<open>The object literal \<^verbatim>\<open>{ error: msg }\<close>.\<close>

definition error_obj :: "string \<Rightarrow> json" where
  "error_obj msg = JObj [(js ''error'', JStr (js msg))]"

text \<open>
  The call of the global \<^verbatim>\<open>fetch\<close>: the URL, the method and the form fields of the
  \<^verbatim>\<open>URLSearchParams\<close> body. Of the answer the handler only reads \<^verbatim>\<open>.json()\<close>, which
  gives a parsed value or throws.
\<close>

record http_request =
  url :: jsstring
  http_method :: jsstring
  form :: "(jsstring \<times> jsstring) list"

record http_response =
  json_result :: "exn + json"

text \<open>The arguments of \<^verbatim>\<open>WorkerMailer.connect\<close> and of \<^verbatim>\<open>mailer.send\<close>.\<close>

record credentials =
  username :: jsstring
  password :: jsstring

record connect_options =
  credentials :: credentials
  authType :: jsstring
  host :: jsstring
  port :: nat
  secure :: bool

record address =
  name :: jsstring
  email :: jsstring

record email_options =
  msg_from :: address
  msg_to :: address
  subject :: jsstring
  text_part :: jsstring
  html :: jsstring

text \<open>
  The two services are parameters of the model. Each call returns or throws, and what
  it does may depend on its arguments. The mailer that \<^verbatim>\<open>connect\<close> returns carries its
  own \<^verbatim>\<open>send\<close>.

  \<^verbatim>\<open>worker-mailer\<close> is a package the worker imports, not code of the worker. The
  source calls \<^verbatim>\<open>mailer.close()\<close> without awaiting it: the call hands back a promise
  at once, and what becomes of that promise never reaches the handler. So the model
  records the call and goes on, as the specification does (it closes the connection
  after the send and names no failure of that step).
\<close>

record mailer =
  send :: "email_options \<Rightarrow> exn + unit"

record world =
  global_fetch :: "http_request \<Rightarrow> exn + http_response"
  connect :: "connect_options \<Rightarrow> exn + mailer"

text \<open>The calls made to the outside, in order.\<close>

datatype event =
    Fetched http_request
  | Connected connect_options
  | Sent email_options
  | Closed

section \<open>The handler\<close>

definition siteverify_request :: "env \<Rightarrow> jsstring \<Rightarrow> http_request" where
  "siteverify_request e tok =
     \<lparr>url = js ''https://challenges.cloudflare.com/turnstile/v0/siteverify'',
      http_method = js ''POST'',
      form = [(js ''secret'', TURNSTILE_SECRET e), (js ''response'', tok)]\<rparr>"

definition mailer_options :: "env \<Rightarrow> connect_options" where
  "mailer_options e =
     \<lparr>credentials = \<lparr>username = js ''feedback@beroea.tech'', password = pass e\<rparr>,
      authType = js ''plain'',
      host = js ''smtp.migadu.com'',
      port = 465,
      secure = True\<rparr>"

definition feedback_mail :: "jsstring \<Rightarrow> jsstring \<Rightarrow> jsstring \<Rightarrow> email_options" where
  "feedback_mail n e m =
     \<lparr>msg_from = \<lparr>name = js ''Feedback'', email = js ''feedback@beroea.tech''\<rparr>,
      msg_to = \<lparr>name = js ''Jamal'', email = js ''jamal@beroea.tech''\<rparr>,
      subject = js ''Feedback from '' @ n,
      text_part = js ''Message: '' @ m @ [0x20, 0x0A, 0x0A, 0x20] @ e,
      html = js ''<p>Feedback content:</p> <p>'' @ m @ js ''</p> <p>Sender: '' @ e @ js ''</p>''\<rparr>"

text \<open>
  \<^verbatim>\<open>!data.name || !data.email || !data.message\<close>: the reads happen left to right and
  stop at the first falsy value; a read that throws ends the evaluation.
\<close>

definition missing_fields :: "json \<Rightarrow> exn + bool" where
  "missing_fields data =
     (case get_field data Name of Inl x \<Rightarrow> Inl x | Inr n \<Rightarrow>
        if \<not> truthy n then Inr True else
        (case get_field data Email of Inl x \<Rightarrow> Inl x | Inr e \<Rightarrow>
           if \<not> truthy e then Inr True else
           (case get_field data Message of Inl x \<Rightarrow> Inl x | Inr m \<Rightarrow>
              Inr (\<not> truthy m))))"

text \<open>
  The four \<^verbatim>\<open>typeof ... !== 'string'\<close> tests. When all four values are strings the
  code goes on with them as strings (\<open>Some\<close> of the four); otherwise it answers
  ``Invalid field types'' (\<open>None\<close>).
\<close>

definition string_of :: "jsval \<Rightarrow> jsstring option" where
  "string_of v = (case v of Some (JStr s) \<Rightarrow> Some s | _ \<Rightarrow> None)"

definition string_fields ::
  "json \<Rightarrow> exn + (jsstring \<times> jsstring \<times> jsstring \<times> jsstring) option" where
  "string_fields data =
     (case get_field data Name of Inl x \<Rightarrow> Inl x | Inr vn \<Rightarrow>
      (case string_of vn of None \<Rightarrow> Inr None | Some n \<Rightarrow>
       (case get_field data Email of Inl x \<Rightarrow> Inl x | Inr ve \<Rightarrow>
        (case string_of ve of None \<Rightarrow> Inr None | Some e \<Rightarrow>
         (case get_field data Message of Inl x \<Rightarrow> Inl x | Inr vm \<Rightarrow>
          (case string_of vm of None \<Rightarrow> Inr None | Some m \<Rightarrow>
           (case get_field data Token of Inl x \<Rightarrow> Inl x | Inr vt \<Rightarrow>
            (case string_of vt of None \<Rightarrow> Inr None | Some t \<Rightarrow>
               Inr (Some (n, e, m, t))))))))))"

text \<open>
  The second half of the \<^verbatim>\<open>try\<close> block, from the call of the verification to the
  success response: \<open>data\<close> is the parsed body and \<open>n\<close>, \<open>e\<close>, \<open>m\<close>, \<open>t\<close> are its
  name, email, message and token, strings by then. It gives the response returned or
  the exception thrown, and the calls made to the outside until then.
\<close>

definition verify_and_send ::
  "env \<Rightarrow> world \<Rightarrow> json \<Rightarrow> jsstring \<Rightarrow> jsstring \<Rightarrow> jsstring \<Rightarrow> jsstring
     \<Rightarrow> (exn + response) \<times> event list" where
  "verify_and_send ev w data n e m t =
     (let call = siteverify_request ev t in
      case global_fetch w call of Inl x \<Rightarrow> (Inl x, [Fetched call]) | Inr turnstileRes \<Rightarrow>
      (case json_result turnstileRes of Inl x \<Rightarrow> (Inl x, [Fetched call]) | Inr outcome \<Rightarrow>
       (case get_field outcome Success of Inl x \<Rightarrow> (Inl x, [Fetched call]) | Inr ok \<Rightarrow>
        if \<not> truthy ok
        then (Inr (jsonResponse (error_obj ''Turnstile verification failed'') 403),
              [Fetched call])
        else
         (let opts = mailer_options ev; mail = feedback_mail n e m in
          case connect w opts of
            Inl x \<Rightarrow> (Inl x, [Fetched call, Connected opts])
          | Inr mailer \<Rightarrow>
            (case send mailer mail of
               Inl x \<Rightarrow> (Inl x, [Fetched call, Connected opts, Sent mail])
             | Inr u \<Rightarrow>
               (Inr (Response
                      (Stringify (JObj [(js ''success'', JBool True), (js ''received'', data)]))
                      (Some 200)
                      [(js ''Content-Type'', js ''application/json''),
                       (js ''Access-Control-Allow-Origin'', js ''*'')]),
                [Fetched call, Connected opts, Sent mail, Closed]))))))"

text \<open>
  The body of the \<^verbatim>\<open>try\<close> block of the POST branch: parsing, the four checks, then
  the verification and the mail.
\<close>

definition try_block :: "env \<Rightarrow> world \<Rightarrow> request \<Rightarrow> (exn + response) \<times> event list" where
  "try_block ev w req =
     (case json_body req of Inl x \<Rightarrow> (Inl x, []) | Inr data \<Rightarrow>
      (case missing_fields data of Inl x \<Rightarrow> (Inl x, []) | Inr missing \<Rightarrow>
       if missing then (Inr (jsonResponse (error_obj ''Missing required fields'') 400), []) else
       (case string_fields data of Inl x \<Rightarrow> (Inl x, [])
        | Inr None \<Rightarrow> (Inr (jsonResponse (error_obj ''Invalid field types'') 400), [])
        | Inr (Some (n, e, m, t)) \<Rightarrow>
          if length n > 100 \<or> length m > 1000
          then (Inr (jsonResponse (error_obj ''Input too long'') 400), [])
          else if \<not> regex_test emailRegex e
          then (Inr (jsonResponse (error_obj ''Invalid email format'') 400), [])
          else verify_and_send ev w data n e m t)))"

text \<open>
  \<^verbatim>\<open>fetch(request, env, ctx)\<close>: the preflight answer, the POST branch with its
  \<^verbatim>\<open>catch\<close>, and the answer to every other method.
\<close>

definition fetch :: "env \<Rightarrow> world \<Rightarrow> request \<Rightarrow> response \<times> event list" where
  "fetch ev w req =
     (if request_method req = js ''OPTIONS'' then
        (let allowedOrigin = js ''https://beroea.tech'' in
         (Response NoBody None
            [(js ''Access-Control-Allow-Origin'', allowedOrigin),
             (js ''Access-Control-Allow-Methods'', js ''POST, OPTIONS''),
             (js ''Access-Control-Allow-Headers'', js ''Content-Type'')], []))
      else if request_method req = js ''POST'' then
        (case try_block ev w req of
           (Inr r, tr) \<Rightarrow> (r, tr)
         | (Inl err, tr) \<Rightarrow>
             (Response (Stringify (error_obj ''Bad Request'')) (Some 400)
                [(js ''Content-Type'', js ''application/json'')], tr))
      else (Response (Text (js ''Method Not Allowed'')) (Some 405) [], []))"

section \<open>Sample inputs\<close>

text \<open>Concrete environments, services and requests, used to run the handler.\<close>

definition env_a :: env where
  "env_a = \<lparr>TURNSTILE_SECRET = js ''secret-a'', pass = js ''pw-a''\<rparr>"

definition env_b :: env where
  "env_b = \<lparr>TURNSTILE_SECRET = js ''secret-b'', pass = js ''pw-b''\<rparr>"

definition mailer_ok :: mailer where
  "mailer_ok = \<lparr>send = (\<lambda>m. Inr ())\<rparr>"

definition answer :: "json \<Rightarrow> http_request \<Rightarrow> exn + http_response" where
  "answer v call = Inr \<lparr>json_result = Inr v\<rparr>"

text \<open>The verification accepts and the relay works.\<close>

definition world_ok :: world where
  "world_ok =
     \<lparr>global_fetch = answer (JObj [(js ''success'', JBool True)]),
      connect = (\<lambda>opts. Inr mailer_ok)\<rparr>"

text \<open>The verification answers \<^verbatim>\<open>{success: false}\<close>.\<close>

definition world_reject :: world where
  "world_reject =
     \<lparr>global_fetch = answer (JObj [(js ''success'', JBool False)]),
      connect = (\<lambda>opts. Inr mailer_ok)\<rparr>"

text \<open>The verification accepts and the relay refuses the connection.\<close>

definition world_relay_down :: world where
  "world_relay_down =
     \<lparr>global_fetch = answer (JObj [(js ''success'', JBool True)]),
      connect = (\<lambda>opts. Inl MailError)\<rparr>"

text \<open>The verification call itself fails.\<close>

definition world_verify_down :: world where
  "world_verify_down =
     \<lparr>global_fetch = (\<lambda>call. Inl NetworkError),
      connect = (\<lambda>opts. Inr mailer_ok)\<rparr>"

text \<open>The verification answers with a body that is not JSON.\<close>

definition world_bad_answer :: world where
  "world_bad_answer =
     \<lparr>global_fetch = (\<lambda>call. Inr \<lparr>json_result = Inl SyntaxError\<rparr>),
      connect = (\<lambda>opts. Inr mailer_ok)\<rparr>"

text \<open>The verification accepts, the relay connects and then refuses the mail.\<close>

definition world_send_fails :: world where
  "world_send_fails =
     \<lparr>global_fetch = answer (JObj [(js ''success'', JBool True)]),
      connect = (\<lambda>opts. Inr \<lparr>send = (\<lambda>m. Inl MailError)\<rparr>)\<rparr>"

definition post :: "json \<Rightarrow> request" where
  "post data = \<lparr>request_method = js ''POST'', json_body = Inr data\<rparr>"

text \<open>A POST request whose body is not JSON.\<close>

definition post_unparsable :: request where
  "post_unparsable = \<lparr>request_method = js ''POST'', json_body = Inl SyntaxError\<rparr>"

text \<open>A preflight request: it has no body, so reading one as JSON would throw.\<close>

definition preflight :: request where
  "preflight = \<lparr>request_method = js ''OPTIONS'', json_body = Inl SyntaxError\<rparr>"

definition submission :: "json \<Rightarrow> json \<Rightarrow> json \<Rightarrow> json \<Rightarrow> json" where
  "submission n e m t =
     JObj [(js ''name'', n), (js ''email'', e), (js ''message'', m), (js ''token'', t)]"

text \<open>The example of the specification: Ana says hello.\<close>

definition ana :: json where
  "ana = submission (JStr (js ''Ana'')) (JStr (js ''ana@example.com''))
           (JStr (js ''Hello'')) (JStr (js ''tok123''))"

section \<open>Helper facts\<close>

lemma post_not_options: "js ''POST'' \<noteq> js ''OPTIONS''"
  by (simp add: js_def)

lemma content_type_not_cors:
  "js ''Content-Type'' \<notin> {js ''Access-Control-Allow-Origin'', js ''Access-Control-Allow-Methods'',
     js ''Access-Control-Allow-Headers''}"
  by (simp add: js_def)

lemmas sample_defs = post_def ana_def submission_def world_ok_def world_reject_def
  world_relay_down_def answer_def mailer_ok_def env_a_def env_b_def

lemmas regex_defs = regex_test_def emailRegex_def not_space_at_def is_space_def rmatch.simps

lemma ana_email_ok: "regex_test emailRegex (js ''ana@example.com'')"
  by (simp add: regex_defs js_def)

lemma get_field_not_null: "data \<noteq> JNull \<Longrightarrow> \<exists>v. get_field data k = Inr v"
  by (cases data) simp_all

lemma get_field_throws: "get_field data k = Inl x \<Longrightarrow> data = JNull"
  by (cases data) simp_all

lemma missing_fields_throws: "missing_fields data = Inl x \<Longrightarrow> data = JNull"
  by (auto simp add: missing_fields_def split: sum.splits if_splits dest: get_field_throws)

lemma string_fields_throws: "string_fields data = Inl x \<Longrightarrow> data = JNull"
  by (auto simp add: string_fields_def split: sum.splits option.splits dest: get_field_throws)

text \<open>The POST branch in terms of the try block.\<close>

lemma fetch_post:
  "request_method req = js ''POST'' \<Longrightarrow>
     fetch ev w req =
       (case try_block ev w req of
          (Inr r, tr) \<Rightarrow> (r, tr)
        | (Inl err, tr) \<Rightarrow> (jsonResponse (error_obj ''Bad Request'') 400, tr))"
  by (simp add: fetch_def jsonResponse_def post_not_options split: prod.splits sum.splits)

text \<open>With non-empty strings in the three fields and a string token, the first two checks pass.\<close>

lemma try_block_strings:
  assumes "json_body req = Inr data"
    and "get_field data Name = Inr (Some (JStr n))" and "n \<noteq> []"
    and "get_field data Email = Inr (Some (JStr e))" and "e \<noteq> []"
    and "get_field data Message = Inr (Some (JStr m))" and "m \<noteq> []"
    and "get_field data Token = Inr (Some (JStr t))"
  shows "try_block ev w req =
           (if length n > 100 \<or> length m > 1000
            then (Inr (jsonResponse (error_obj ''Input too long'') 400), [])
            else if \<not> regex_test emailRegex e
            then (Inr (jsonResponse (error_obj ''Invalid email format'') 400), [])
            else verify_and_send ev w data n e m t)"
  using assms by (simp add: try_block_def missing_fields_def string_fields_def string_of_def)

lemma submission_fields:
  "get_field (submission n e m t) Name = Inr (Some n)"
  "get_field (submission n e m t) Email = Inr (Some e)"
  "get_field (submission n e m t) Message = Inr (Some m)"
  "get_field (submission n e m t) Token = Inr (Some t)"
  by (simp_all add: submission_def js_def)

lemma ana_fields:
  "get_field ana Name = Inr (Some (JStr (js ''Ana'')))"
  "get_field ana Email = Inr (Some (JStr (js ''ana@example.com'')))"
  "get_field ana Message = Inr (Some (JStr (js ''Hello'')))"
  "get_field ana Token = Inr (Some (JStr (js ''tok123'')))"
  by (simp_all add: ana_def submission_fields)

lemma ana_sizes:
  "js ''Ana'' \<noteq> []" "js ''ana@example.com'' \<noteq> []" "js ''Hello'' \<noteq> []"
  "length (js ''Ana'') \<le> 100" "length (js ''Hello'') \<le> 1000"
  by (simp_all add: js_def)

lemma try_block_ana:
  "try_block ev w (post ana) =
     verify_and_send ev w ana (js ''Ana'') (js ''ana@example.com'') (js ''Hello'') (js ''tok123'')"
proof -
  have "try_block ev w (post ana) =
          (if length (js ''Ana'') > 100 \<or> length (js ''Hello'') > 1000
           then (Inr (jsonResponse (error_obj ''Input too long'') 400), [])
           else if \<not> regex_test emailRegex (js ''ana@example.com'')
           then (Inr (jsonResponse (error_obj ''Invalid email format'') 400), [])
           else verify_and_send ev w ana (js ''Ana'') (js ''ana@example.com'') (js ''Hello'')
                  (js ''tok123''))"
    by (rule try_block_strings)
       (simp_all add: post_def ana_def submission_fields, simp_all add: js_def)
  then show ?thesis
    by (simp add: ana_email_ok) (simp add: js_def)
qed

text \<open>The responses the try block can return, and the calls it can make.\<close>

lemma try_block_response:
  assumes "try_block ev w req = (Inr r, tr)"
  shows "(\<exists>b. r = jsonResponse b 400) \<or> (\<exists>b. r = jsonResponse b 403)
       \<or> (\<exists>b. r = Response b (Some 200)
                  [(js ''Content-Type'', js ''application/json''),
                   (js ''Access-Control-Allow-Origin'', js ''*'')])"
  using assms
  by (auto simp add: try_block_def verify_and_send_def Let_def
      split: sum.splits option.splits prod.splits if_splits)

lemma verify_and_send_first:
  "\<exists>tr. snd (verify_and_send ev w data n e m t) = Fetched (siteverify_request ev t) # tr"
  by (simp add: verify_and_send_def Let_def split: sum.splits)

lemma verify_and_send_trace:
  "set (snd (verify_and_send ev w data n e m t))
     \<subseteq> {Fetched (siteverify_request ev t), Connected (mailer_options ev),
         Sent (feedback_mail n e m), Closed}"
  by (auto simp add: verify_and_send_def Let_def split: sum.splits if_splits)

lemma try_block_trace:
  assumes "ev' \<in> set (snd (try_block ev w req))"
  shows "(\<exists>t. ev' = Fetched (siteverify_request ev t)) \<or> ev' = Connected (mailer_options ev)
       \<or> (\<exists>mail. ev' = Sent mail) \<or> ev' = Closed"
  using assms
  by (auto simp add: try_block_def split: sum.splits option.splits prod.splits if_splits
      dest!: verify_and_send_trace [THEN subsetD])

lemma fetch_trace:
  "snd (fetch ev w req) = (if request_method req = js ''POST'' then snd (try_block ev w req) else [])"
  by (auto simp add: fetch_def post_not_options split: prod.splits sum.splits)

lemma fetch_response:
  "fst (fetch ev w req) =
     (if request_method req = js ''OPTIONS'' then
        Response NoBody None
          [(js ''Access-Control-Allow-Origin'', js ''https://beroea.tech''),
           (js ''Access-Control-Allow-Methods'', js ''POST, OPTIONS''),
           (js ''Access-Control-Allow-Headers'', js ''Content-Type'')]
      else if request_method req = js ''POST'' then
        (case fst (try_block ev w req) of
           Inr r \<Rightarrow> r
         | Inl x \<Rightarrow> jsonResponse (error_obj ''Bad Request'') 400)
      else Response (Text (js ''Method Not Allowed'')) (Some 405) [])"
  by (simp add: fetch_def jsonResponse_def split: prod.splits sum.splits)

subsection \<open>The matcher on the email pattern\<close>

lemma rmatch_Lit: "set (rmatch (Lit d) s) = {r. s = d # r}"
  by (cases s) (auto simp add: rmatch.simps)

lemma rmatch_class:
  "rmatch not_space_at s = (case s of [] \<Rightarrow> [] | c # cs \<Rightarrow> if plain c then [cs] else [])"
  by (cases s) (auto simp add: not_space_at_def plain_def rmatch.simps)

lemma rmatch_plus_step:
  "rmatch (Plus not_space_at) s =
     (case s of [] \<Rightarrow> []
      | c # cs \<Rightarrow> if plain c then rmatch (Plus not_space_at) cs @ [cs] else [])"
  by (subst rmatch.simps(4)) (simp add: rmatch_class split: list.splits)

lemma rmatch_plus_class:
  "set (rmatch (Plus not_space_at) s) =
     {r. \<exists>p. s = p @ r \<and> p \<noteq> [] \<and> (\<forall>c \<in> set p. plain c)}"
proof (induction s)
  case Nil
  then show ?case by (simp add: rmatch_plus_step)
next
  case (Cons c cs)
  show ?case
  proof (cases "plain c")
    case False
    then show ?thesis
      by (auto simp add: rmatch_plus_step [of "c # cs"] Cons_eq_append_conv)
  next
    case True
    have "set (rmatch (Plus not_space_at) (c # cs)) = set (rmatch (Plus not_space_at) cs) \<union> {cs}"
      using True by (simp add: rmatch_plus_step [of "c # cs"])
    also have "\<dots> = {r. \<exists>p. c # cs = p @ r \<and> p \<noteq> [] \<and> (\<forall>c \<in> set p. plain c)}"
      (is "?L = ?R")
    proof (intro set_eqI iffI)
      fix r assume "r \<in> ?L"
      then consider (longer) p where "cs = p @ r" "p \<noteq> []" "\<forall>c \<in> set p. plain c"
        | (one) "r = cs"
        using Cons.IH by auto
      then show "r \<in> ?R"
      proof cases
        case longer
        then have "c # cs = (c # p) @ r \<and> c # p \<noteq> [] \<and> (\<forall>x \<in> set (c # p). plain x)"
          using True by simp
        then show ?thesis by blast
      next
        case one
        then have "c # cs = [c] @ r \<and> [c] \<noteq> [] \<and> (\<forall>x \<in> set [c]. plain x)"
          using True by simp
        then show ?thesis by blast
      qed
    next
      fix r assume "r \<in> ?R"
      then obtain p where p: "c # cs = p @ r" "p \<noteq> []" "\<forall>c \<in> set p. plain c"
        by blast
      then obtain q where q: "p = c # q" "cs = q @ r"
        by (cases p) auto
      show "r \<in> ?L"
      proof (cases "q = []")
        case True
        then show ?thesis using q by simp
      next
        case False
        then have "\<exists>p. cs = p @ r \<and> p \<noteq> [] \<and> (\<forall>c \<in> set p. plain c)"
          using q p by auto
        then show ?thesis using Cons.IH by simp
      qed
    qed
    finally show ?thesis .
  qed
qed

lemma rmatch_Cat: "set (rmatch (Cat a b) s) = (\<Union>r \<in> set (rmatch a s). set (rmatch b r))"
  by (simp add: rmatch.simps)

lemma regex_test_email_shape: "regex_test emailRegex s \<longleftrightarrow> email_shape s"
proof
  assume "regex_test emailRegex s"
  then obtain r1 r2 r3 r4 where
    "r1 \<in> set (rmatch (Plus not_space_at) s)" "r2 \<in> set (rmatch (Lit 0x40) r1)"
    "r3 \<in> set (rmatch (Plus not_space_at) r2)" "r4 \<in> set (rmatch (Lit 0x2E) r3)"
    "[] \<in> set (rmatch (Plus not_space_at) r4)"
    unfolding regex_test_def emailRegex_def rmatch_Cat by blast
  then obtain l d t where "s = l @ r1" "l \<noteq> []" "\<forall>c \<in> set l. plain c" "r1 = 0x40 # r2"
    "r2 = d @ r3" "d \<noteq> []" "\<forall>c \<in> set d. plain c" "r3 = 0x2E # r4"
    "r4 = t @ []" "t \<noteq> []" "\<forall>c \<in> set t. plain c"
    unfolding rmatch_plus_class rmatch_Lit by blast
  then have "s = l @ [0x40] @ d @ [0x2E] @ t \<and> l \<noteq> [] \<and> d \<noteq> [] \<and> t \<noteq> [] \<and>
        (\<forall>c \<in> set l. plain c) \<and> (\<forall>c \<in> set d. plain c) \<and> (\<forall>c \<in> set t. plain c)"
    by simp
  then show "email_shape s"
    unfolding email_shape_def by blast
next
  assume "email_shape s"
  then obtain l d t where s: "s = l @ [0x40] @ d @ [0x2E] @ t"
    and ne: "l \<noteq> []" "d \<noteq> []" "t \<noteq> []"
    and pl: "\<forall>c \<in> set l. plain c" "\<forall>c \<in> set d. plain c" "\<forall>c \<in> set t. plain c"
    unfolding email_shape_def by blast
  have 1: "0x40 # d @ 0x2E # t \<in> set (rmatch (Plus not_space_at) s)"
    unfolding rmatch_plus_class using s ne pl by auto
  have 2: "d @ 0x2E # t \<in> set (rmatch (Lit 0x40) (0x40 # d @ 0x2E # t))"
    unfolding rmatch_Lit by simp
  have 3: "0x2E # t \<in> set (rmatch (Plus not_space_at) (d @ 0x2E # t))"
    unfolding rmatch_plus_class using ne pl by auto
  have 4: "t \<in> set (rmatch (Lit 0x2E) (0x2E # t))"
    unfolding rmatch_Lit by simp
  have 5: "[] \<in> set (rmatch (Plus not_space_at) t)"
    unfolding rmatch_plus_class using ne pl by auto
  show "regex_test emailRegex s"
    unfolding regex_test_def emailRegex_def rmatch_Cat using 1 2 3 4 5 by blast
qed

subsection \<open>Where the exceptions of the try block come from\<close>

text \<open>
  The parsing of the body, the validation (the body \<^verbatim>\<open>null\<close>), the verification call
  and the reading of its answer, the relay's connect and send; and nowhere else.
\<close>

lemma parse_failure_throws:
  "json_body req = Inl x \<Longrightarrow> try_block ev w req = (Inl x, [])"
  by (simp add: try_block_def)

lemma null_body_throws:
  "json_body req = Inr JNull \<Longrightarrow> try_block ev w req = (Inl TypeError, [])"
  by (simp add: try_block_def missing_fields_def)

lemma verification_throws:
  assumes "global_fetch w (siteverify_request ev t) = Inl x
         \<or> (\<exists>res. global_fetch w (siteverify_request ev t) = Inr res \<and> json_result res = Inl x)"
  shows "verify_and_send ev w data n e m t = (Inl x, [Fetched (siteverify_request ev t)])"
  using assms by (auto simp add: verify_and_send_def)

lemma null_outcome_throws:
  assumes "global_fetch w (siteverify_request ev t) = Inr res" and "json_result res = Inr JNull"
  shows "verify_and_send ev w data n e m t = (Inl TypeError, [Fetched (siteverify_request ev t)])"
  using assms by (simp add: verify_and_send_def)

lemma relay_throws:
  assumes "global_fetch w (siteverify_request ev t) = Inr res" and "json_result res = Inr outcome"
    and "get_field outcome Success = Inr flag" and "truthy flag"
    and "connect w (mailer_options ev) = Inl x
         \<or> (\<exists>mlr. connect w (mailer_options ev) = Inr mlr \<and> send mlr (feedback_mail n e m) = Inl x)"
  shows "fst (verify_and_send ev w data n e m t) = Inl x"
  using assms by (auto simp add: verify_and_send_def)

lemma verify_and_send_throws_cases:
  assumes "verify_and_send ev w data n e m t = (Inl x, tr)"
  shows "global_fetch w (siteverify_request ev t) = Inl x
       \<or> (\<exists>res. global_fetch w (siteverify_request ev t) = Inr res \<and>
            (json_result res = Inl x \<or> json_result res = Inr JNull
             \<or> connect w (mailer_options ev) = Inl x
             \<or> (\<exists>mlr. connect w (mailer_options ev) = Inr mlr
                  \<and> send mlr (feedback_mail n e m) = Inl x)))"
  using assms
  by (auto simp add: verify_and_send_def Let_def split: sum.splits if_splits
      dest: get_field_throws)

lemma try_block_throws_cases:
  assumes "try_block ev w req = (Inl x, tr)"
  shows "json_body req = Inl x \<or> json_body req = Inr JNull
       \<or> (\<exists>data n e m t. verify_and_send ev w data n e m t = (Inl x, tr))"
  using assms
  by (auto simp add: try_block_def split: sum.splits option.splits if_splits prod.splits
      dest: missing_fields_throws string_fields_throws)

subsection \<open>Runs on the sample inputs\<close>

lemma run_ok:
  "fetch ev world_ok (post ana) =
     (\<lparr>status = 200,
       headers = [(js ''Content-Type'', js ''application/json''),
                  (js ''Access-Control-Allow-Origin'', js ''*'')],
       body = Stringify (JObj [(js ''success'', JBool True), (js ''received'', ana)])\<rparr>,
      [Fetched (siteverify_request ev (js ''tok123'')), Connected (mailer_options ev),
       Sent (feedback_mail (js ''Ana'') (js ''ana@example.com'') (js ''Hello'')), Closed])"
proof -
  have m: "request_method (post ana) = js ''POST''"
    by (simp add: post_def)
  show ?thesis
    by (simp add: fetch_post [OF m] try_block_ana verify_and_send_def world_ok_def answer_def
        mailer_ok_def Response_def)
qed

lemma run_preflight:
  "fst (fetch ev w preflight) =
     \<lparr>status = 200,
      headers = [(js ''Access-Control-Allow-Origin'', js ''https://beroea.tech''),
                 (js ''Access-Control-Allow-Methods'', js ''POST, OPTIONS''),
                 (js ''Access-Control-Allow-Headers'', js ''Content-Type'')],
      body = NoBody\<rparr>"
  by (simp add: fetch_response preflight_def Response_def)

lemma run_null:
  "fetch ev w (post JNull) =
     (\<lparr>status = 400,
       headers = [(js ''Content-Type'', js ''application/json'')],
       body = Stringify (JObj [(js ''error'', JStr (js ''Bad Request''))])\<rparr>, [])"
proof -
  have m: "request_method (post JNull) = js ''POST''" and b: "json_body (post JNull) = Inr JNull"
    by (simp_all add: post_def)
  show ?thesis
    by (simp add: fetch_post [OF m] null_body_throws [OF b] jsonResponse_def Response_def
        error_obj_def)
qed

section \<open>Properties of the handler\<close>

text \<open>
  C1. A POST request whose body has non-empty string name, email and message, a name of
  at most 100 and a message of at most 1000 code units (what \<^verbatim>\<open>.length\<close> counts), an
  email that passes the pattern and a string token, with the verification answering
  \<^verbatim>\<open>{success: true}\<close> and the relay connecting and sending, gets status 200 and the
  body \<^verbatim>\<open>{success: true, received: data}\<close>, where \<open>data\<close> is the parsed body itself.
  The calls made are the verification, the connect, the send and the close, in this
  order.
\<close>

theorem valid_submission_accepted:
  assumes post: "request_method req = js ''POST''" and body: "json_body req = Inr data"
    and name: "get_field data Name = Inr (Some (JStr n))" "n \<noteq> []"
    and email: "get_field data Email = Inr (Some (JStr e))" "e \<noteq> []"
    and message: "get_field data Message = Inr (Some (JStr m))" "m \<noteq> []"
    and token: "get_field data Token = Inr (Some (JStr t))"
    and bounds: "length n \<le> 100" "length m \<le> 1000"
    and pattern: "regex_test emailRegex e"
    and verified: "global_fetch w (siteverify_request ev t) = Inr res"
      "json_result res = Inr outcome" "get_field outcome Success = Inr (Some (JBool True))"
    and relayed: "connect w (mailer_options ev) = Inr mlr"
      "send mlr (feedback_mail n e m) = Inr ()"
  shows "fetch ev w req =
           (\<lparr>status = 200,
             headers = [(js ''Content-Type'', js ''application/json''),
                        (js ''Access-Control-Allow-Origin'', js ''*'')],
             body = Stringify (JObj [(js ''success'', JBool True), (js ''received'', data)])\<rparr>,
            [Fetched (siteverify_request ev t), Connected (mailer_options ev),
             Sent (feedback_mail n e m), Closed])"
  using bounds pattern verified relayed
  by (simp add: fetch_post [OF post] try_block_strings [OF body name email message token]
      verify_and_send_def Response_def)

theorem valid_submission_accepted_witness:
  "fetch env_a world_ok (post ana) =
     (\<lparr>status = 200,
       headers = [(js ''Content-Type'', js ''application/json''),
                  (js ''Access-Control-Allow-Origin'', js ''*'')],
       body = Stringify (JObj [(js ''success'', JBool True), (js ''received'', ana)])\<rparr>,
      [Fetched (siteverify_request env_a (js ''tok123'')), Connected (mailer_options env_a),
       Sent (feedback_mail (js ''Ana'') (js ''ana@example.com'') (js ''Hello'')), Closed])"
  by (rule valid_submission_accepted [where n = "js ''Ana''" and e = "js ''ana@example.com''"
        and m = "js ''Hello''" and t = "js ''tok123''" and mlr = mailer_ok
        and res = "\<lparr>json_result = Inr (JObj [(js ''success'', JBool True)])\<rparr>"
        and outcome = "JObj [(js ''success'', JBool True)]"])
     (simp_all add: ana_email_ok sample_defs, simp_all add: js_def)

text \<open>
  C2. Whatever the request, and whether the verification call and the relay return or
  throw, the status of the response is 200, 400, 403 or 405: never a 5xx.
\<close>

theorem status_codes:
  "status (fst (fetch ev w req)) \<in> {200, 400, 403, 405}"
proof (cases "fst (try_block ev w req)")
  case (Inl x)
  then show ?thesis
    by (simp add: fetch_response jsonResponse_def Response_def)
next
  case (Inr r)
  then have "try_block ev w req = (Inr r, snd (try_block ev w req))"
    by (simp add: prod_eq_iff)
  from try_block_response [OF this] Inr show ?thesis
    by (auto simp add: fetch_response jsonResponse_def Response_def)
qed

theorem status_codes_witness:
  "status (fst (fetch env_a world_relay_down (post ana))) \<in> {200, 400, 403, 405}"
  by (rule status_codes)

text \<open>
  C3. In a POST request, an exception raised anywhere in the pipeline is answered with
  status 400 and \<^verbatim>\<open>{error: "Bad Request"}\<close>, whatever the exception \<open>x\<close> is. The places
  are: the parsing of the body throws; the validation throws (the body is \<^verbatim>\<open>null\<close>,
  so reading \<^verbatim>\<open>data.name\<close> throws); and, for a body that passes the validation: the
  verification call throws, reading its answer as JSON throws, the answer is
  \<^verbatim>\<open>null\<close> (reading \<^verbatim>\<open>outcome.success\<close> throws), or, once the verification has
  accepted, the relay's connect throws or its send throws.
\<close>

theorem exception_bad_request:
  assumes post: "request_method req = js ''POST''"
    and raised:
      "json_body req = Inl x \<or> json_body req = Inr JNull \<or>
       (json_body req = Inr data \<and>
        get_field data Name = Inr (Some (JStr n)) \<and> n \<noteq> [] \<and> length n \<le> 100 \<and>
        get_field data Email = Inr (Some (JStr e)) \<and> e \<noteq> [] \<and> regex_test emailRegex e \<and>
        get_field data Message = Inr (Some (JStr m)) \<and> m \<noteq> [] \<and> length m \<le> 1000 \<and>
        get_field data Token = Inr (Some (JStr t)) \<and>
        (global_fetch w (siteverify_request ev t) = Inl x \<or>
         (\<exists>res. global_fetch w (siteverify_request ev t) = Inr res \<and>
            (json_result res = Inl x \<or> json_result res = Inr JNull \<or>
             (\<exists>outcome flag. json_result res = Inr outcome \<and>
                get_field outcome Success = Inr flag \<and> truthy flag \<and>
                (connect w (mailer_options ev) = Inl x \<or>
                 (\<exists>mlr. connect w (mailer_options ev) = Inr mlr \<and>
                    send mlr (feedback_mail n e m) = Inl x)))))))"
  shows "fst (fetch ev w req) =
           \<lparr>status = 400,
            headers = [(js ''Content-Type'', js ''application/json'')],
            body = Stringify (JObj [(js ''error'', JStr (js ''Bad Request''))])\<rparr>"
proof -
  have caught: "fst (fetch ev w req) =
           \<lparr>status = 400,
            headers = [(js ''Content-Type'', js ''application/json'')],
            body = Stringify (JObj [(js ''error'', JStr (js ''Bad Request''))])\<rparr>"
    if "fst (try_block ev w req) = Inl y" for y
    using that post
    by (simp add: fetch_response post_not_options jsonResponse_def Response_def error_obj_def)
  from raised consider
      (parse) "json_body req = Inl x"
    | (null) "json_body req = Inr JNull"
    | (later) "json_body req = Inr data"
        "get_field data Name = Inr (Some (JStr n))" "n \<noteq> []" "length n \<le> 100"
        "get_field data Email = Inr (Some (JStr e))" "e \<noteq> []" "regex_test emailRegex e"
        "get_field data Message = Inr (Some (JStr m))" "m \<noteq> []" "length m \<le> 1000"
        "get_field data Token = Inr (Some (JStr t))"
        "global_fetch w (siteverify_request ev t) = Inl x \<or>
         (\<exists>res. global_fetch w (siteverify_request ev t) = Inr res \<and>
            (json_result res = Inl x \<or> json_result res = Inr JNull \<or>
             (\<exists>outcome flag. json_result res = Inr outcome \<and>
                get_field outcome Success = Inr flag \<and> truthy flag \<and>
                (connect w (mailer_options ev) = Inl x \<or>
                 (\<exists>mlr. connect w (mailer_options ev) = Inr mlr \<and>
                    send mlr (feedback_mail n e m) = Inl x)))))"
    by blast
  then show ?thesis
  proof cases
    case parse
    then show ?thesis
      by (intro caught [of x]) (simp add: parse_failure_throws)
  next
    case null
    then show ?thesis
      by (intro caught [of TypeError]) (simp add: null_body_throws)
  next
    case later
    have tb: "try_block ev w req = verify_and_send ev w data n e m t"
      using later(4,7,10)
      by (simp add: try_block_strings [OF later(1,2,3,5,6,8,9,11)])
    from later(12) consider
        (call) "global_fetch w (siteverify_request ev t) = Inl x
          \<or> (\<exists>res. global_fetch w (siteverify_request ev t) = Inr res \<and> json_result res = Inl x)"
      | (answer) res where "global_fetch w (siteverify_request ev t) = Inr res"
          "json_result res = Inr JNull"
      | (relay) res outcome flag where "global_fetch w (siteverify_request ev t) = Inr res"
          "json_result res = Inr outcome" "get_field outcome Success = Inr flag" "truthy flag"
          "connect w (mailer_options ev) = Inl x
           \<or> (\<exists>mlr. connect w (mailer_options ev) = Inr mlr
                \<and> send mlr (feedback_mail n e m) = Inl x)"
      by blast
    then show ?thesis
    proof cases
      case call
      then show ?thesis
        by (intro caught [of x]) (simp add: tb verification_throws)
    next
      case answer
      then show ?thesis
        by (intro caught [of TypeError]) (simp add: tb null_outcome_throws)
    next
      case relay
      then show ?thesis
        by (intro caught [of x]) (simp add: tb relay_throws)
    qed
  qed
qed

theorem exception_bad_request_witness:
  "fst (fetch env_a world_ok post_unparsable) =
     \<lparr>status = 400,
      headers = [(js ''Content-Type'', js ''application/json'')],
      body = Stringify (JObj [(js ''error'', JStr (js ''Bad Request''))])\<rparr> \<and>
   fst (fetch env_a world_verify_down (post ana)) =
     \<lparr>status = 400,
      headers = [(js ''Content-Type'', js ''application/json'')],
      body = Stringify (JObj [(js ''error'', JStr (js ''Bad Request''))])\<rparr> \<and>
   fst (fetch env_a world_bad_answer (post ana)) =
     \<lparr>status = 400,
      headers = [(js ''Content-Type'', js ''application/json'')],
      body = Stringify (JObj [(js ''error'', JStr (js ''Bad Request''))])\<rparr> \<and>
   fst (fetch env_a world_relay_down (post ana)) =
     \<lparr>status = 400,
      headers = [(js ''Content-Type'', js ''application/json'')],
      body = Stringify (JObj [(js ''error'', JStr (js ''Bad Request''))])\<rparr> \<and>
   fst (fetch env_a world_send_fails (post ana)) =
     \<lparr>status = 400,
      headers = [(js ''Content-Type'', js ''application/json'')],
      body = Stringify (JObj [(js ''error'', JStr (js ''Bad Request''))])\<rparr>"
proof (intro conjI)
  note valid = ana_fields ana_sizes ana_email_ok
  show "fst (fetch env_a world_ok post_unparsable) =
     \<lparr>status = 400,
      headers = [(js ''Content-Type'', js ''application/json'')],
      body = Stringify (JObj [(js ''error'', JStr (js ''Bad Request''))])\<rparr>"
    by (rule exception_bad_request [where x = SyntaxError])
       (simp_all add: post_unparsable_def)
  show "fst (fetch env_a world_verify_down (post ana)) =
     \<lparr>status = 400,
      headers = [(js ''Content-Type'', js ''application/json'')],
      body = Stringify (JObj [(js ''error'', JStr (js ''Bad Request''))])\<rparr>"
    by (rule exception_bad_request [where x = NetworkError and data = ana and n = "js ''Ana''"
          and e = "js ''ana@example.com''" and m = "js ''Hello''" and t = "js ''tok123''"])
       (simp_all add: post_def valid world_verify_down_def)
  show "fst (fetch env_a world_bad_answer (post ana)) =
     \<lparr>status = 400,
      headers = [(js ''Content-Type'', js ''application/json'')],
      body = Stringify (JObj [(js ''error'', JStr (js ''Bad Request''))])\<rparr>"
    by (rule exception_bad_request [where x = SyntaxError and data = ana and n = "js ''Ana''"
          and e = "js ''ana@example.com''" and m = "js ''Hello''" and t = "js ''tok123''"])
       (simp_all add: post_def valid world_bad_answer_def)
  show "fst (fetch env_a world_relay_down (post ana)) =
     \<lparr>status = 400,
      headers = [(js ''Content-Type'', js ''application/json'')],
      body = Stringify (JObj [(js ''error'', JStr (js ''Bad Request''))])\<rparr>"
    by (rule exception_bad_request [where x = MailError and data = ana and n = "js ''Ana''"
          and e = "js ''ana@example.com''" and m = "js ''Hello''" and t = "js ''tok123''"])
       (simp_all add: post_def valid world_relay_down_def answer_def)
  show "fst (fetch env_a world_send_fails (post ana)) =
     \<lparr>status = 400,
      headers = [(js ''Content-Type'', js ''application/json'')],
      body = Stringify (JObj [(js ''error'', JStr (js ''Bad Request''))])\<rparr>"
    by (rule exception_bad_request [where x = MailError and data = ana and n = "js ''Ana''"
          and e = "js ''ana@example.com''" and m = "js ''Hello''" and t = "js ''tok123''"])
       (simp_all add: post_def valid world_send_fails_def answer_def)
qed

text \<open>
  C4. A POST request that passes the validation, when reading \<^verbatim>\<open>success\<close> of the
  verification's JSON answer gives a falsy value (\<^verbatim>\<open>false\<close>, or nothing at all), gets
  status 403 and \<^verbatim>\<open>{error: "Turnstile verification failed"}\<close>. The only call made is
  the verification: the relay is neither connected to nor sent anything.
\<close>

theorem falsy_verification_forbidden:
  assumes post: "request_method req = js ''POST''" and body: "json_body req = Inr data"
    and name: "get_field data Name = Inr (Some (JStr n))" "n \<noteq> []"
    and email: "get_field data Email = Inr (Some (JStr e))" "e \<noteq> []"
    and message: "get_field data Message = Inr (Some (JStr m))" "m \<noteq> []"
    and token: "get_field data Token = Inr (Some (JStr t))"
    and bounds: "length n \<le> 100" "length m \<le> 1000"
    and pattern: "regex_test emailRegex e"
    and answered: "global_fetch w (siteverify_request ev t) = Inr res"
      "json_result res = Inr outcome"
    and falsy: "get_field outcome Success = Inr flag" "\<not> truthy flag"
  shows "fetch ev w req =
           (\<lparr>status = 403,
             headers = [(js ''Content-Type'', js ''application/json'')],
             body = Stringify (JObj [(js ''error'', JStr (js ''Turnstile verification failed''))])\<rparr>,
            [Fetched (siteverify_request ev t)])"
  using bounds pattern answered falsy
  by (simp add: fetch_post [OF post] try_block_strings [OF body name email message token]
      verify_and_send_def jsonResponse_def Response_def error_obj_def)

theorem falsy_verification_forbidden_witness:
  "fetch env_a world_reject (post ana) =
     (\<lparr>status = 403,
       headers = [(js ''Content-Type'', js ''application/json'')],
       body = Stringify (JObj [(js ''error'', JStr (js ''Turnstile verification failed''))])\<rparr>,
      [Fetched (siteverify_request env_a (js ''tok123''))])"
  by (rule falsy_verification_forbidden [where n = "js ''Ana''" and e = "js ''ana@example.com''"
        and m = "js ''Hello''" and flag = "Some (JBool False)"
        and res = "\<lparr>json_result = Inr (JObj [(js ''success'', JBool False)])\<rparr>"
        and outcome = "JObj [(js ''success'', JBool False)]"])
     (simp_all add: ana_email_ok sample_defs, simp_all add: js_def)

text \<open>
  C5, as stated: every POST request whose parsed body lacks name, email or message
  (or has a falsy value there) gets \<^verbatim>\<open>{error: "Missing required fields"}\<close>. The body
  \<^verbatim>\<open>null\<close> parses, has none of the three, and is answered otherwise: reading
  \<^verbatim>\<open>data.name\<close> throws, and the catch block answers \<^verbatim>\<open>{error: "Bad Request"}\<close>.
\<close>

theorem missing_fields_null_counterexample:
  "json_body (post JNull) = Inr JNull \<and>
   fetch env_a world_ok (post JNull) =
     (\<lparr>status = 400,
       headers = [(js ''Content-Type'', js ''application/json'')],
       body = Stringify (JObj [(js ''error'', JStr (js ''Bad Request''))])\<rparr>, []) \<and>
   body (fst (fetch env_a world_ok (post JNull))) \<noteq>
     Stringify (JObj [(js ''error'', JStr (js ''Missing required fields''))])"
proof -
  have m: "request_method (post JNull) = js ''POST''" and b: "json_body (post JNull) = Inr JNull"
    by (simp_all add: post_def)
  have "js ''Bad Request'' \<noteq> js ''Missing required fields''"
    by (simp add: js_def)
  then show ?thesis
    by (simp add: b fetch_post [OF m] null_body_throws [OF b] jsonResponse_def Response_def
        error_obj_def)
qed

text \<open>
  C5, amended: every POST request whose parsed body is not \<^verbatim>\<open>null\<close> and where reading
  name, email or message gives a falsy value (\<^verbatim>\<open>undefined\<close> when the field is missing)
  gets status 400 and \<^verbatim>\<open>{error: "Missing required fields"}\<close>, and no call to the
  verification or to the relay is made.
\<close>

theorem missing_field_rejected:
  assumes post: "request_method req = js ''POST''" and body: "json_body req = Inr data"
    and not_null: "data \<noteq> JNull"
    and falsy: "k \<in> {Name, Email, Message}" "get_field data k = Inr v" "\<not> truthy v"
  shows "fetch ev w req =
           (\<lparr>status = 400,
             headers = [(js ''Content-Type'', js ''application/json'')],
             body = Stringify (JObj [(js ''error'', JStr (js ''Missing required fields''))])\<rparr>, [])"
proof -
  obtain vn ve vm where r: "get_field data Name = Inr vn" "get_field data Email = Inr ve"
      "get_field data Message = Inr vm"
    using get_field_not_null [OF not_null] by metis
  have "\<not> truthy vn \<or> \<not> truthy ve \<or> \<not> truthy vm"
    using falsy r by auto
  then have "missing_fields data = Inr True"
    using r by (auto simp add: missing_fields_def)
  then show ?thesis
    using body
    by (simp add: fetch_post [OF post] try_block_def jsonResponse_def Response_def error_obj_def)
qed

theorem missing_field_rejected_witness:
  "fetch env_a world_ok
     (post (submission (JStr (js ''Ana'')) (JStr []) (JStr (js ''Hello'')) (JStr (js ''tok123'')))) =
     (\<lparr>status = 400,
       headers = [(js ''Content-Type'', js ''application/json'')],
       body = Stringify (JObj [(js ''error'', JStr (js ''Missing required fields''))])\<rparr>, [])"
  by (rule missing_field_rejected [where k = Email and v = "Some (JStr [])"
        and data = "submission (JStr (js ''Ana'')) (JStr []) (JStr (js ''Hello''))
                      (JStr (js ''tok123''))"])
     (simp_all add: post_def submission_fields, simp add: submission_def)

text \<open>
  C6. A POST request whose name, email, message and token are strings, the first three
  non-empty, with a name of more than 100 or a message of more than 1000 code units,
  gets status 400 and \<^verbatim>\<open>{error: "Input too long"}\<close>, and no call to the verification
  or to the relay is made.
\<close>

theorem too_long_rejected:
  assumes post: "request_method req = js ''POST''" and body: "json_body req = Inr data"
    and name: "get_field data Name = Inr (Some (JStr n))" "n \<noteq> []"
    and email: "get_field data Email = Inr (Some (JStr e))" "e \<noteq> []"
    and message: "get_field data Message = Inr (Some (JStr m))" "m \<noteq> []"
    and token: "get_field data Token = Inr (Some (JStr t))"
    and long: "length n > 100 \<or> length m > 1000"
  shows "fetch ev w req =
           (\<lparr>status = 400,
             headers = [(js ''Content-Type'', js ''application/json'')],
             body = Stringify (JObj [(js ''error'', JStr (js ''Input too long''))])\<rparr>, [])"
  using long
  by (auto simp add: fetch_post [OF post] try_block_strings [OF body name email message token]
      jsonResponse_def Response_def error_obj_def)

theorem too_long_rejected_witness:
  "fetch env_a world_ok
     (post (submission (JStr (js ''Ana'')) (JStr (js ''ana@example.com''))
        (JStr (replicate 1001 0x78)) (JStr (js ''tok123'')))) =
     (\<lparr>status = 400,
       headers = [(js ''Content-Type'', js ''application/json'')],
       body = Stringify (JObj [(js ''error'', JStr (js ''Input too long''))])\<rparr>, [])"
  by (rule too_long_rejected [where n = "js ''Ana''" and e = "js ''ana@example.com''"
        and m = "replicate 1001 0x78" and t = "js ''tok123''"
        and data = "submission (JStr (js ''Ana'')) (JStr (js ''ana@example.com''))
                      (JStr (replicate 1001 0x78)) (JStr (js ''tok123''))"])
     (simp_all add: post_def submission_fields, simp_all add: js_def)

text \<open>
  C7, as stated: any string that fails the pattern, sent as the email, is answered
  \<^verbatim>\<open>{error: "Invalid email format"}\<close>. The empty string fails the pattern, and a POST
  request with the empty email and every other field valid is answered
  \<^verbatim>\<open>{error: "Missing required fields"}\<close>: the presence check comes first.
\<close>

theorem email_check_empty_counterexample:
  "\<not> regex_test emailRegex [] \<and> \<not> email_shape [] \<and>
   fetch env_a world_ok
     (post (submission (JStr (js ''Ana'')) (JStr []) (JStr (js ''Hello''))
        (JStr (js ''tok123'')))) =
     (\<lparr>status = 400,
       headers = [(js ''Content-Type'', js ''application/json'')],
       body = Stringify (JObj [(js ''error'', JStr (js ''Missing required fields''))])\<rparr>, []) \<and>
   body (fst (fetch env_a world_ok
     (post (submission (JStr (js ''Ana'')) (JStr []) (JStr (js ''Hello''))
        (JStr (js ''tok123'')))))) \<noteq>
     Stringify (JObj [(js ''error'', JStr (js ''Invalid email format''))])"
proof -
  let ?data = "submission (JStr (js ''Ana'')) (JStr []) (JStr (js ''Hello''))
                 (JStr (js ''tok123''))"
  have r: "\<not> regex_test emailRegex []"
    by (simp add: regex_defs)
  then have s: "\<not> email_shape []"
    by (simp add: regex_test_email_shape)
  have pm: "request_method (post ?data) = js ''POST''"
    and pb: "json_body (post ?data) = Inr ?data"
    by (simp_all add: post_def)
  have "missing_fields ?data = Inr True"
    using ana_sizes(1) by (simp add: missing_fields_def submission_fields)
  then have f: "fetch env_a world_ok (post ?data) =
     (\<lparr>status = 400,
       headers = [(js ''Content-Type'', js ''application/json'')],
       body = Stringify (JObj [(js ''error'', JStr (js ''Missing required fields''))])\<rparr>, [])"
    by (simp add: fetch_post [OF pm] try_block_def pb jsonResponse_def Response_def
        error_obj_def)
  have "js ''Missing required fields'' \<noteq> js ''Invalid email format''"
    by (simp add: js_def)
  with r s f show ?thesis
    by simp
qed

text \<open>
  C7, amended: the test of the email pattern accepts a string exactly when it has the
  shape the specification words: one or more code units that are neither whitespace
  nor \<^verbatim>\<open>@\<close>, then \<^verbatim>\<open>@\<close>, then one or more such code units, then a dot, then one or
  more such code units. A POST request that reaches the test (non-empty string name,
  email and message, a string token, a name of at most 100 and a message of at most
  1000 code units) with an email that has not this shape gets status 400 and
  \<^verbatim>\<open>{error: "Invalid email format"}\<close>, and no call to the outside is made.
\<close>

theorem email_check:
  "(regex_test emailRegex s \<longleftrightarrow> email_shape s) \<and>
   (request_method req = js ''POST'' \<and> json_body req = Inr data \<and>
    get_field data Name = Inr (Some (JStr n)) \<and> n \<noteq> [] \<and> length n \<le> 100 \<and>
    get_field data Email = Inr (Some (JStr e)) \<and> e \<noteq> [] \<and>
    get_field data Message = Inr (Some (JStr m)) \<and> m \<noteq> [] \<and> length m \<le> 1000 \<and>
    get_field data Token = Inr (Some (JStr t)) \<and>
    \<not> email_shape e \<longrightarrow>
    fetch ev w req =
      (\<lparr>status = 400,
        headers = [(js ''Content-Type'', js ''application/json'')],
        body = Stringify (JObj [(js ''error'', JStr (js ''Invalid email format''))])\<rparr>, []))"
proof (intro conjI impI)
  show "regex_test emailRegex s \<longleftrightarrow> email_shape s"
    by (rule regex_test_email_shape)
next
  assume h: "request_method req = js ''POST'' \<and> json_body req = Inr data \<and>
    get_field data Name = Inr (Some (JStr n)) \<and> n \<noteq> [] \<and> length n \<le> 100 \<and>
    get_field data Email = Inr (Some (JStr e)) \<and> e \<noteq> [] \<and>
    get_field data Message = Inr (Some (JStr m)) \<and> m \<noteq> [] \<and> length m \<le> 1000 \<and>
    get_field data Token = Inr (Some (JStr t)) \<and>
    \<not> email_shape e"
  then have tb: "try_block ev w req =
           (if length n > 100 \<or> length m > 1000
            then (Inr (jsonResponse (error_obj ''Input too long'') 400), [])
            else if \<not> regex_test emailRegex e
            then (Inr (jsonResponse (error_obj ''Invalid email format'') 400), [])
            else verify_and_send ev w data n e m t)"
    by (intro try_block_strings) simp_all
  from h have "\<not> regex_test emailRegex e"
    by (simp add: regex_test_email_shape)
  with h tb show "fetch ev w req =
      (\<lparr>status = 400,
        headers = [(js ''Content-Type'', js ''application/json'')],
        body = Stringify (JObj [(js ''error'', JStr (js ''Invalid email format''))])\<rparr>, [])"
    by (simp add: fetch_post jsonResponse_def Response_def error_obj_def)
qed

theorem email_check_witness:
  "\<not> email_shape (js ''no-at-sign'') \<and> \<not> email_shape (js ''a@b'') \<and>
   \<not> email_shape (js ''@b.com'') \<and> email_shape (js ''ana@example.com'') \<and>
   fetch env_a world_ok
     (post (submission (JStr (js ''Ana'')) (JStr (js ''a@b'')) (JStr (js ''Hello''))
        (JStr (js ''tok123'')))) =
     (\<lparr>status = 400,
       headers = [(js ''Content-Type'', js ''application/json'')],
       body = Stringify (JObj [(js ''error'', JStr (js ''Invalid email format''))])\<rparr>, [])"
proof -
  note c = email_check [where e = "js ''a@b''" and n = "js ''Ana''" and m = "js ''Hello''"
      and t = "js ''tok123''" and ev = env_a and w = world_ok
      and data = "submission (JStr (js ''Ana'')) (JStr (js ''a@b'')) (JStr (js ''Hello''))
                    (JStr (js ''tok123''))"
      and req = "post (submission (JStr (js ''Ana'')) (JStr (js ''a@b'')) (JStr (js ''Hello''))
                    (JStr (js ''tok123'')))"]
  have r: "\<not> regex_test emailRegex (js ''no-at-sign'')" "\<not> regex_test emailRegex (js ''a@b'')"
    "\<not> regex_test emailRegex (js ''@b.com'')"
    by (simp_all add: regex_defs js_def)
  have s1: "\<not> email_shape (js ''no-at-sign'')"
    using c [where s = "js ''no-at-sign''", THEN conjunct1] r(1) by blast
  have s2: "\<not> email_shape (js ''a@b'')"
    using c [where s = "js ''a@b''", THEN conjunct1] r(2) by blast
  have s3: "\<not> email_shape (js ''@b.com'')"
    using c [where s = "js ''@b.com''", THEN conjunct1] r(3) by blast
  have s4: "email_shape (js ''ana@example.com'')"
    using c [where s = "js ''ana@example.com''", THEN conjunct1] ana_email_ok by blast
  have f: "fetch env_a world_ok
     (post (submission (JStr (js ''Ana'')) (JStr (js ''a@b'')) (JStr (js ''Hello''))
        (JStr (js ''tok123'')))) =
     (\<lparr>status = 400,
       headers = [(js ''Content-Type'', js ''application/json'')],
       body = Stringify (JObj [(js ''error'', JStr (js ''Invalid email format''))])\<rparr>, [])"
    by (rule c [where s = "[]", THEN conjunct2, THEN mp])
       (simp add: s2 post_def submission_fields, simp add: js_def)
  from s1 s2 s3 s4 f show ?thesis by blast
qed

text \<open>
  C8, as stated: the allowed origin of the preflight response and the user name of the
  relay come from the environment. Two environments that differ in both of their
  bindings give the same origin and the same user name: both are literals of the
  source, and \<^verbatim>\<open>interface Env\<close> has no binding for them.
\<close>

theorem config_from_env_counterexample:
  "TURNSTILE_SECRET env_a \<noteq> TURNSTILE_SECRET env_b \<and> pass env_a \<noteq> pass env_b \<and>
   map_of (headers (fst (fetch env_a world_ok preflight))) (js ''Access-Control-Allow-Origin'') =
     Some (js ''https://beroea.tech'') \<and>
   map_of (headers (fst (fetch env_b world_ok preflight))) (js ''Access-Control-Allow-Origin'') =
     Some (js ''https://beroea.tech'') \<and>
   snd (fetch env_a world_ok (post ana)) ! 1 = Connected (mailer_options env_a) \<and>
   snd (fetch env_b world_ok (post ana)) ! 1 = Connected (mailer_options env_b) \<and>
   username (credentials (mailer_options env_a)) = js ''feedback@beroea.tech'' \<and>
   username (credentials (mailer_options env_b)) = js ''feedback@beroea.tech''"
proof -
  have "js ''secret-a'' \<noteq> js ''secret-b''" and "js ''pw-a'' \<noteq> js ''pw-b''"
    by (simp_all add: js_def)
  then show ?thesis
    by (simp add: run_ok run_preflight env_a_def env_b_def mailer_options_def)
qed

text \<open>
  C8, amended: of the configuration, the password of the relay and the secret of the
  verification come from the environment (\<^verbatim>\<open>env.pass\<close>, \<^verbatim>\<open>env.TURNSTILE_SECRET\<close>),
  read when the request is handled. The allowed origin of the preflight response is the
  constant \<^verbatim>\<open>https://beroea.tech\<close> and the user name of the relay is the constant
  \<^verbatim>\<open>feedback@beroea.tech\<close>.
\<close>

theorem config_sources:
  "(request_method req = js ''OPTIONS'' \<longrightarrow>
      map_of (headers (fst (fetch ev w req))) (js ''Access-Control-Allow-Origin'') =
        Some (js ''https://beroea.tech''))
   \<and> (\<forall>opts. Connected opts \<in> set (snd (fetch ev w req)) \<longrightarrow>
         username (credentials opts) = js ''feedback@beroea.tech''
         \<and> password (credentials opts) = pass ev)
   \<and> (\<forall>call. Fetched call \<in> set (snd (fetch ev w req)) \<longrightarrow>
         map_of (form call) (js ''secret'') = Some (TURNSTILE_SECRET ev))"
proof (intro conjI impI allI)
  assume "request_method req = js ''OPTIONS''"
  then show "map_of (headers (fst (fetch ev w req))) (js ''Access-Control-Allow-Origin'') =
        Some (js ''https://beroea.tech'')"
    by (simp add: fetch_response Response_def)
next
  fix opts assume "Connected opts \<in> set (snd (fetch ev w req))"
  then have "Connected opts \<in> set (snd (try_block ev w req))"
    by (simp add: fetch_trace split: if_splits)
  from try_block_trace [OF this] have o: "opts = mailer_options ev"
    by auto
  show "username (credentials opts) = js ''feedback@beroea.tech''"
    and "password (credentials opts) = pass ev"
    by (simp_all add: o mailer_options_def)
next
  fix call assume "Fetched call \<in> set (snd (fetch ev w req))"
  then have "Fetched call \<in> set (snd (try_block ev w req))"
    by (simp add: fetch_trace split: if_splits)
  from try_block_trace [OF this] obtain t where "call = siteverify_request ev t"
    by auto
  then show "map_of (form call) (js ''secret'') = Some (TURNSTILE_SECRET ev)"
    by (simp add: siteverify_request_def)
qed

theorem config_sources_witness:
  "map_of (headers (fst (fetch env_a world_ok preflight))) (js ''Access-Control-Allow-Origin'') =
     Some (js ''https://beroea.tech'') \<and>
   Connected (mailer_options env_a) \<in> set (snd (fetch env_a world_ok (post ana))) \<and>
   username (credentials (mailer_options env_a)) = js ''feedback@beroea.tech'' \<and>
   password (credentials (mailer_options env_a)) = pass env_a \<and>
   Fetched (siteverify_request env_a (js ''tok123'')) \<in> set (snd (fetch env_a world_ok (post ana))) \<and>
   map_of (form (siteverify_request env_a (js ''tok123''))) (js ''secret'') =
     Some (TURNSTILE_SECRET env_a)"
proof -
  have p: "request_method preflight = js ''OPTIONS''"
    by (simp add: preflight_def)
  have c: "Connected (mailer_options env_a) \<in> set (snd (fetch env_a world_ok (post ana)))"
    and f: "Fetched (siteverify_request env_a (js ''tok123''))
              \<in> set (snd (fetch env_a world_ok (post ana)))"
    by (simp_all add: run_ok)
  from config_sources [of preflight env_a world_ok] p
  have 1: "map_of (headers (fst (fetch env_a world_ok preflight)))
             (js ''Access-Control-Allow-Origin'') = Some (js ''https://beroea.tech'')"
    by blast
  from config_sources [of "post ana" env_a world_ok] c f
  have 2: "username (credentials (mailer_options env_a)) = js ''feedback@beroea.tech''"
    "password (credentials (mailer_options env_a)) = pass env_a"
    "map_of (form (siteverify_request env_a (js ''tok123''))) (js ''secret'') =
       Some (TURNSTILE_SECRET env_a)"
    by blast+
  from 1 2 c f show ?thesis by blast
qed

text \<open>
  C9, as stated: every POST request with non-empty string name, email and message and
  the empty string as token passes the validation, and the verification is called. With
  a name of 101 code units the request is answered ``Input too long'' and nothing is
  called: the token is not what stops it, the length check is.
\<close>

theorem empty_token_long_name_counterexample:
  "fetch env_a world_ok
     (post (submission (JStr (replicate 101 0x61)) (JStr (js ''ana@example.com''))
        (JStr (js ''Hello'')) (JStr []))) =
     (\<lparr>status = 400,
       headers = [(js ''Content-Type'', js ''application/json'')],
       body = Stringify (JObj [(js ''error'', JStr (js ''Input too long''))])\<rparr>, [])"
proof -
  let ?data = "submission (JStr (replicate 101 0x61)) (JStr (js ''ana@example.com''))
                 (JStr (js ''Hello'')) (JStr [])"
  have m: "request_method (post ?data) = js ''POST''"
    by (simp add: post_def)
  have "try_block env_a world_ok (post ?data) =
          (if length (replicate 101 (0x61 :: 16 word)) > 100 \<or> length (js ''Hello'') > 1000
           then (Inr (jsonResponse (error_obj ''Input too long'') 400), [])
           else if \<not> regex_test emailRegex (js ''ana@example.com'')
           then (Inr (jsonResponse (error_obj ''Invalid email format'') 400), [])
           else verify_and_send env_a world_ok ?data (replicate 101 0x61)
                  (js ''ana@example.com'') (js ''Hello'') [])"
    by (rule try_block_strings) (simp_all add: post_def submission_fields, simp_all add: js_def)
  then show ?thesis
    by (simp add: fetch_post [OF m] jsonResponse_def Response_def error_obj_def)
qed

text \<open>
  C9, amended: for every POST request whose body has non-empty string name, email and
  message: if the token is absent or not a string, the answer is status 400 and
  \<^verbatim>\<open>{error: "Invalid field types"}\<close> (not ``Missing required fields''), with no call to
  the outside; and if the token is the empty string, the name has at most 100 and the
  message at most 1000 code units and the email passes the pattern, the validation
  passes and the verification is called first, with the form field \<^verbatim>\<open>response\<close> equal to
  the empty string.
\<close>

theorem token_checks:
  assumes post: "request_method req = js ''POST''" and body: "json_body req = Inr data"
    and name: "get_field data Name = Inr (Some (JStr n))" "n \<noteq> []"
    and email: "get_field data Email = Inr (Some (JStr e))" "e \<noteq> []"
    and message: "get_field data Message = Inr (Some (JStr m))" "m \<noteq> []"
  shows "(get_field data Token = Inr vt \<and> (\<forall>s. vt \<noteq> Some (JStr s)) \<longrightarrow>
            fetch ev w req =
              (\<lparr>status = 400,
                headers = [(js ''Content-Type'', js ''application/json'')],
                body = Stringify (JObj [(js ''error'', JStr (js ''Invalid field types''))])\<rparr>, []))
       \<and> (get_field data Token = Inr (Some (JStr [])) \<and> length n \<le> 100 \<and> length m \<le> 1000 \<and>
          regex_test emailRegex e \<longrightarrow>
            try_block ev w req = verify_and_send ev w data n e m [] \<and>
            (\<exists>tr. snd (fetch ev w req) =
               Fetched \<lparr>url = js ''https://challenges.cloudflare.com/turnstile/v0/siteverify'',
                        http_method = js ''POST'',
                        form = [(js ''secret'', TURNSTILE_SECRET ev), (js ''response'', [])]\<rparr> # tr))"
proof (intro conjI impI)
  assume t: "get_field data Token = Inr vt \<and> (\<forall>s. vt \<noteq> Some (JStr s))"
  then have "string_of vt = None"
    by (auto simp add: string_of_def split: option.splits json.splits)
  then have "string_fields data = Inr None"
    using name email message t by (simp add: string_fields_def string_of_def)
  moreover have "missing_fields data = Inr False"
    using name email message by (simp add: missing_fields_def)
  ultimately show "fetch ev w req =
              (\<lparr>status = 400,
                headers = [(js ''Content-Type'', js ''application/json'')],
                body = Stringify (JObj [(js ''error'', JStr (js ''Invalid field types''))])\<rparr>, [])"
    using body
    by (simp add: fetch_post [OF post] try_block_def jsonResponse_def Response_def error_obj_def)
next
  assume t: "get_field data Token = Inr (Some (JStr [])) \<and> length n \<le> 100 \<and> length m \<le> 1000 \<and>
          regex_test emailRegex e"
  then have "get_field data Token = Inr (Some (JStr []))"
    by simp
  note tb = try_block_strings [OF body name email message this]
  from t show passes: "try_block ev w req = verify_and_send ev w data n e m []"
    by (simp add: tb)
  obtain tr where "snd (verify_and_send ev w data n e m []) = Fetched (siteverify_request ev []) # tr"
    using verify_and_send_first by blast
  then have "snd (fetch ev w req) = Fetched (siteverify_request ev []) # tr"
    using post by (simp add: fetch_trace passes)
  then show "\<exists>tr. snd (fetch ev w req) =
               Fetched \<lparr>url = js ''https://challenges.cloudflare.com/turnstile/v0/siteverify'',
                        http_method = js ''POST'',
                        form = [(js ''secret'', TURNSTILE_SECRET ev), (js ''response'', [])]\<rparr> # tr"
    by (simp add: siteverify_request_def)
qed

theorem token_checks_witness:
  "fetch env_a world_ok
     (post (JObj [(js ''name'', JStr (js ''Ana'')), (js ''email'', JStr (js ''ana@example.com'')),
                  (js ''message'', JStr (js ''Hello''))])) =
     (\<lparr>status = 400,
       headers = [(js ''Content-Type'', js ''application/json'')],
       body = Stringify (JObj [(js ''error'', JStr (js ''Invalid field types''))])\<rparr>, []) \<and>
   hd (snd (fetch env_a world_ok
     (post (submission (JStr (js ''Ana'')) (JStr (js ''ana@example.com'')) (JStr (js ''Hello''))
        (JStr []))))) =
     Fetched \<lparr>url = js ''https://challenges.cloudflare.com/turnstile/v0/siteverify'',
              http_method = js ''POST'',
              form = [(js ''secret'', TURNSTILE_SECRET env_a), (js ''response'', [])]\<rparr>"
proof -
  let ?no_token = "JObj [(js ''name'', JStr (js ''Ana'')), (js ''email'', JStr (js ''ana@example.com'')),
                  (js ''message'', JStr (js ''Hello''))]"
  let ?empty_token = "submission (JStr (js ''Ana'')) (JStr (js ''ana@example.com''))
                        (JStr (js ''Hello'')) (JStr [])"
  have a: "get_field ?no_token Name = Inr (Some (JStr (js ''Ana'')))"
    "get_field ?no_token Email = Inr (Some (JStr (js ''ana@example.com'')))"
    "get_field ?no_token Message = Inr (Some (JStr (js ''Hello'')))"
    "get_field ?no_token Token = Inr None"
    by (simp_all add: js_def)
  have ne: "js ''Ana'' \<noteq> []" "js ''ana@example.com'' \<noteq> []" "js ''Hello'' \<noteq> []"
    "length (js ''Ana'') \<le> 100" "length (js ''Hello'') \<le> 1000"
    by (simp_all add: js_def)
  have pm: "\<And>d. request_method (post d) = js ''POST''" and pb: "\<And>d. json_body (post d) = Inr d"
    by (simp_all add: post_def)
  from token_checks [OF pm pb a(1) ne(1) a(2) ne(2) a(3) ne(3), of None env_a world_ok] a(4)
  have 1: "fetch env_a world_ok (post ?no_token) =
     (\<lparr>status = 400,
       headers = [(js ''Content-Type'', js ''application/json'')],
       body = Stringify (JObj [(js ''error'', JStr (js ''Invalid field types''))])\<rparr>, [])"
    by simp
  from token_checks [of "post ?empty_token" ?empty_token "js ''Ana''" "js ''ana@example.com''"
      "js ''Hello''" None env_a world_ok] ne ana_email_ok
  have "\<exists>tr. snd (fetch env_a world_ok (post ?empty_token)) =
     Fetched \<lparr>url = js ''https://challenges.cloudflare.com/turnstile/v0/siteverify'',
              http_method = js ''POST'',
              form = [(js ''secret'', TURNSTILE_SECRET env_a), (js ''response'', [])]\<rparr> # tr"
    by (simp add: pm pb submission_fields)
  then have 2: "hd (snd (fetch env_a world_ok (post ?empty_token))) =
     Fetched \<lparr>url = js ''https://challenges.cloudflare.com/turnstile/v0/siteverify'',
              http_method = js ''POST'',
              form = [(js ''secret'', TURNSTILE_SECRET env_a), (js ''response'', [])]\<rparr>"
    by auto
  from 1 2 show ?thesis by blast
qed

text \<open>
  C10. A response with status 400 or 403 carries the single header
  \<^verbatim>\<open>Content-Type: application/json\<close>, whichever step of the POST branch produced it
  (the four checks, the verification, the catch block). A response has a CORS header
  (\<^verbatim>\<open>Access-Control-Allow-Origin\<close>, \<^verbatim>\<open>-Methods\<close> or \<^verbatim>\<open>-Headers\<close>) exactly when it
  answers an OPTIONS request or is the 200 answer to a POST request.
\<close>

theorem cors_headers:
  "(status (fst (fetch ev w req)) \<in> {400, 403} \<longrightarrow>
      headers (fst (fetch ev w req)) = [(js ''Content-Type'', js ''application/json'')])
   \<and> ((\<exists>h \<in> set (headers (fst (fetch ev w req))).
          fst h \<in> {js ''Access-Control-Allow-Origin'', js ''Access-Control-Allow-Methods'',
                   js ''Access-Control-Allow-Headers''}) \<longleftrightarrow>
        request_method req = js ''OPTIONS''
        \<or> request_method req = js ''POST'' \<and> status (fst (fetch ev w req)) = 200)"
proof (cases "fst (try_block ev w req)")
  case (Inl x)
  then show ?thesis
    using content_type_not_cors
    by (simp add: fetch_response jsonResponse_def Response_def post_not_options)
next
  case (Inr r)
  then have "try_block ev w req = (Inr r, snd (try_block ev w req))"
    by (simp add: prod_eq_iff)
  from try_block_response [OF this] Inr content_type_not_cors show ?thesis
    by (auto simp add: fetch_response jsonResponse_def Response_def post_not_options)
qed

theorem cors_headers_witness:
  "status (fst (fetch env_a world_ok (post JNull))) \<in> {400, 403} \<and>
   headers (fst (fetch env_a world_ok (post JNull))) =
     [(js ''Content-Type'', js ''application/json'')] \<and>
   request_method preflight = js ''OPTIONS'' \<and>
   (\<exists>h \<in> set (headers (fst (fetch env_a world_ok preflight))).
      fst h \<in> {js ''Access-Control-Allow-Origin'', js ''Access-Control-Allow-Methods'',
               js ''Access-Control-Allow-Headers''})"
proof -
  have s: "status (fst (fetch env_a world_ok (post JNull))) \<in> {400, 403}"
    by (simp add: run_null)
  have p: "request_method preflight = js ''OPTIONS''"
    by (simp add: preflight_def)
  from cors_headers [of env_a world_ok "post JNull"] s
  have 1: "headers (fst (fetch env_a world_ok (post JNull))) =
     [(js ''Content-Type'', js ''application/json'')]"
    by blast
  from cors_headers [of env_a world_ok preflight] p
  have 2: "\<exists>h \<in> set (headers (fst (fetch env_a world_ok preflight))).
      fst h \<in> {js ''Access-Control-Allow-Origin'', js ''Access-Control-Allow-Methods'',
               js ''Access-Control-Allow-Headers''}"
    by blast
  from s 1 p 2 show ?thesis by blast
qed

end
